theory Spec2Isabelle
  imports Main "HOL-Library.Sublist"
begin

section \<open>Session access token: \<open>apps/studio/data/auth/session-access-token-query.ts\<close>\<close>

text \<open>
  The values the token promise can carry: a string, \<open>null\<close> or \<open>undefined\<close>.
\<close>

datatype js_value = JString string | JNull | JUndefined

text \<open>
  What becomes of a promise: it is fulfilled with a value, rejected with an error, or it
  never settles. The error type \<open>'e\<close> is left open, as \<open>catch (e: any)\<close> does.
\<close>

datatype 'e settlement = Fulfilled js_value | Rejected 'e | Pending

text \<open>
  The surroundings of one invocation. \<open>window_defined\<close> is the outcome of the test
  \<open>typeof window === 'undefined'\<close>, negated. \<open>getAccessToken\<close> is imported from
  \<open>lib/gotrue\<close>, which is not among the sources, so its behaviour is a parameter:
  \<open>gotrue k\<close> is the settlement of the promise returned by its \<open>k\<close>-th invocation
  (an exception thrown before a promise is returned is caught by the same \<open>try\<close> and
  counts as a rejection). \<open>gotrue_calls\<close> counts the invocations made so far.
\<close>

record 'e runtime =
  window_defined :: bool
  gotrue :: "nat \<Rightarrow> 'e settlement"
  gotrue_calls :: nat

definition getAccessToken :: "'e runtime \<Rightarrow> 'e settlement \<times> 'e runtime" where
  "getAccessToken rt = (gotrue rt (gotrue_calls rt), rt\<lparr>gotrue_calls := Suc (gotrue_calls rt)\<rparr>)"

text \<open>
  \<^verbatim>\<open>
  export async function getSessionAccessToken() {
    // ignore if server-side
    if (typeof window === 'undefined') return ''
    try {
      return await getAccessToken()
    } catch (e: any) {
      // ignore the error
      return null
    }
  }
  \<close>
  The result is the settlement of the promise the function returns, with the runtime
  after the invocation.
\<close>

definition getSessionAccessToken :: "'e runtime \<Rightarrow> 'e settlement \<times> 'e runtime" where
  "getSessionAccessToken rt =
     (if \<not> window_defined rt then (Fulfilled (JString ''''), rt)
      else (case getAccessToken rt of
              (Fulfilled v, rt') \<Rightarrow> (Fulfilled v, rt')
            | (Rejected e, rt') \<Rightarrow> (Fulfilled JNull, rt')
            | (Pending, rt') \<Rightarrow> (Pending, rt')))"

section \<open>Connection icon: the component \<open>ConnectionIcon\<close>\<close>

subsection \<open>String operations of the host language\<close>

text \<open>
  A string is the list of the bytes of its UTF-8 encoding; a byte below 128 is an ASCII
  character, and every other character takes several bytes, all of them 128 or more.
\<close>

definition is_ascii :: "char \<Rightarrow> bool" where
  "is_ascii c = ((of_char c :: nat) < 128)"

text \<open>
  \<open>String.prototype.toLowerCase\<close>. On a string of ASCII characters it maps the letters
  \<open>A\<close> to \<open>Z\<close> to \<open>a\<close> to \<open>z\<close> and leaves every other character as it is. On any other
  string the result is given by the Unicode case mapping of the runtime (it may change
  the length, and it may depend on the neighbouring characters); that table is not among
  the sources, so it is the parameter \<open>unicode_lower\<close>, about which nothing is assumed.
\<close>

definition ascii_upper :: "char \<Rightarrow> bool" where
  "ascii_upper c = (65 \<le> (of_char c :: nat) \<and> (of_char c :: nat) \<le> 90)"

definition lower_char :: "char \<Rightarrow> char" where
  "lower_char c = (if ascii_upper c then char_of ((of_char c :: nat) + 32) else c)"

definition toLowerCase :: "(string \<Rightarrow> string) \<Rightarrow> string \<Rightarrow> string" where
  "toLowerCase unicode_lower s =
     (if list_all is_ascii s then map lower_char s else unicode_lower s)"

text \<open>
  \<open>s.includes(pat)\<close> on strings: \<open>pat\<close> occurs in \<open>s\<close> at some position. (An ASCII
  pattern occurs among the bytes exactly where it occurs among the characters.)
\<close>

fun string_includes :: "string \<Rightarrow> string \<Rightarrow> bool" where
  "string_includes [] pat = (pat = [])"
| "string_includes (x # xs) pat = (prefix pat (x # xs) \<or> string_includes xs pat)"

subsection \<open>The component\<close>

text \<open>
  \<open>useTheme()\<close> of \<open>next-themes\<close> returns an object of which the component reads the
  field \<open>resolvedTheme\<close>, a string or \<open>undefined\<close>.
\<close>

record theme_context =
  resolvedTheme :: "string option"

text \<open>The properties handed to \<open>Image\<close>.\<close>

record image_props =
  className :: string
  src :: string
  alt :: string
  width :: nat
  height :: nat

text \<open>
  The expression after the lowercase identifier in the template literal:
  \<^verbatim>\<open>
  ['expo', 'nextjs'].includes(connection.toLowerCase())
    ? resolvedTheme?.includes('dark') ? '-dark' : ''
    : ''
  \<close>
\<close>

definition theme_suffix :: "(string \<Rightarrow> string) \<Rightarrow> string \<Rightarrow> string option \<Rightarrow> string" where
  "theme_suffix unicode_lower connection theme =
     (if toLowerCase unicode_lower connection \<in> set [''expo'', ''nextjs'']
      then (case theme of
              None \<Rightarrow> ''''
            | Some t \<Rightarrow> if string_includes t ''dark'' then ''-dark'' else '''')
      else '''')"

text \<open>
  \<open>BASE_PATH\<close> comes from \<open>lib/constants\<close>, which is not among the sources; it is the
  first argument. The property \<open>connection\<close> is declared \<open>any\<close>; the model covers the
  string identifiers, on which \<open>toLowerCase\<close> is defined.
  \<^verbatim>\<open>
  const ConnectionIcon = ({ connection }: ConnectionIconProps) => {
    const { resolvedTheme } = useTheme()
    return (
      <Image
        className="transition-all group-hover:scale-110"
        src={`${BASE_PATH}/img/libraries/${connection.toLowerCase()}${...}-icon.svg`}
        alt={`${connection} logo`}
        width={12}
        height={12}
      />
    )
  }
  \<close>
\<close>

definition ConnectionIcon ::
  "string \<Rightarrow> (string \<Rightarrow> string) \<Rightarrow> string \<Rightarrow> 'a theme_context_scheme \<Rightarrow> image_props" where
  "ConnectionIcon BASE_PATH unicode_lower connection ctx =
     \<lparr> className = ''transition-all group-hover:scale-110'',
       src = BASE_PATH @ ''/img/libraries/'' @ toLowerCase unicode_lower connection
             @ theme_suffix unicode_lower connection (resolvedTheme ctx) @ ''-icon.svg'',
       alt = connection @ '' logo'',
       width = 12,
       height = 12 \<rparr>"

text \<open>
  A path carries the dark-mode suffix when it ends in \<open>-dark-icon.svg\<close>: the suffix
  sits between the identifier and the fixed ending \<open>-icon.svg\<close>.
\<close>

definition has_dark_suffix :: "string \<Rightarrow> bool" where
  "has_dark_suffix path = suffix ''-dark-icon.svg'' path"

section \<open>Properties of the session access token\<close>

text \<open>
  Claim C1. In a browser-like context (\<open>window\<close> defined), whenever the promise of
  \<open>getAccessToken\<close> is rejected, with whatever error, the promise of
  \<open>getSessionAccessToken\<close> is fulfilled with \<open>null\<close>; two invocations that fail with
  different errors have the same result.
\<close>

theorem getSessionAccessToken_error_gives_null:
  assumes "window_defined rt" and "gotrue rt (gotrue_calls rt) = Rejected e"
    and "window_defined rt'" and "gotrue rt' (gotrue_calls rt') = Rejected e'"
  shows "fst (getSessionAccessToken rt) = Fulfilled JNull
       \<and> fst (getSessionAccessToken rt') = fst (getSessionAccessToken rt)"
  using assms by (simp add: getSessionAccessToken_def getAccessToken_def)

text \<open>
  The hypotheses of C1 hold for a network failure and for an expired session.
\<close>

theorem getSessionAccessToken_error_gives_null_witness:
  "window_defined \<lparr>window_defined = True, gotrue = (\<lambda>k. Rejected ''network failure''), gotrue_calls = 0\<rparr>
 \<and> window_defined \<lparr>window_defined = True, gotrue = (\<lambda>k. Rejected ''expired session''), gotrue_calls = 3\<rparr>
 \<and> fst (getSessionAccessToken
        \<lparr>window_defined = True, gotrue = (\<lambda>k. Rejected ''network failure''), gotrue_calls = 0\<rparr>)
     = Fulfilled JNull
 \<and> fst (getSessionAccessToken
        \<lparr>window_defined = True, gotrue = (\<lambda>k. Rejected ''expired session''), gotrue_calls = 3\<rparr>)
     = fst (getSessionAccessToken
        \<lparr>window_defined = True, gotrue = (\<lambda>k. Rejected ''network failure''), gotrue_calls = 0\<rparr>)"
  using getSessionAccessToken_error_gives_null
    [of "\<lparr>window_defined = True, gotrue = (\<lambda>k. Rejected ''network failure''), gotrue_calls = 0\<rparr>"
        "''network failure''"
        "\<lparr>window_defined = True, gotrue = (\<lambda>k. Rejected ''expired session''), gotrue_calls = 3\<rparr>"
        "''expired session''"]
  by simp

text \<open>
  Claim C2. Outside a browser-like context (\<open>window\<close> undefined) the promise is
  fulfilled with the empty string, and the runtime is left as it was: \<open>getAccessToken\<close>
  has not been invoked.
\<close>

theorem getSessionAccessToken_server_side:
  assumes "\<not> window_defined rt"
  shows "fst (getSessionAccessToken rt) = Fulfilled (JString '''')
       \<and> snd (getSessionAccessToken rt) = rt
       \<and> gotrue_calls (snd (getSessionAccessToken rt)) = gotrue_calls rt"
  using assms by (simp add: getSessionAccessToken_def)

text \<open>
  C2 on a server-side runtime in which two earlier invocations have been counted.
\<close>

theorem getSessionAccessToken_server_side_witness:
  "\<not> window_defined \<lparr>window_defined = False, gotrue = (\<lambda>k. Fulfilled (JString ''tok'') :: string settlement), gotrue_calls = 2\<rparr>
 \<and> fst (getSessionAccessToken
        \<lparr>window_defined = False, gotrue = (\<lambda>k. Fulfilled (JString ''tok'') :: string settlement), gotrue_calls = 2\<rparr>)
     = Fulfilled (JString '''')
 \<and> gotrue_calls (snd (getSessionAccessToken
        \<lparr>window_defined = False, gotrue = (\<lambda>k. Fulfilled (JString ''tok'') :: string settlement), gotrue_calls = 2\<rparr>))
     = 2"
  using getSessionAccessToken_server_side
    [of "\<lparr>window_defined = False, gotrue = (\<lambda>k. Fulfilled (JString ''tok'') :: string settlement), gotrue_calls = 2\<rparr>"]
  by simp

text \<open>
  Claim C6. In every context and for every behaviour of \<open>getAccessToken\<close> the promise of
  \<open>getSessionAccessToken\<close> is never rejected; and whenever the token fetch settles (it
  returns a value or fails with an error), or is not made at all, the promise is
  fulfilled with a value.
\<close>

theorem getSessionAccessToken_never_rejects:
  "(\<forall>e. fst (getSessionAccessToken rt) \<noteq> Rejected e)
 \<and> ((window_defined rt \<longrightarrow> gotrue rt (gotrue_calls rt) \<noteq> Pending)
      \<longrightarrow> (\<exists>v. fst (getSessionAccessToken rt) = Fulfilled v))"
  by (cases "gotrue rt (gotrue_calls rt)")
     (simp_all add: getSessionAccessToken_def getAccessToken_def)

text \<open>
  C6 on a browser-side runtime whose token fetch fails.
\<close>

theorem getSessionAccessToken_never_rejects_witness:
  "window_defined \<lparr>window_defined = True, gotrue = (\<lambda>k. Rejected ''malformed response''), gotrue_calls = 0\<rparr>
 \<and> gotrue \<lparr>window_defined = True, gotrue = (\<lambda>k. Rejected ''malformed response''), gotrue_calls = 0\<rparr> 0 \<noteq> Pending
 \<and> fst (getSessionAccessToken
        \<lparr>window_defined = True, gotrue = (\<lambda>k. Rejected ''malformed response''), gotrue_calls = 0\<rparr>)
     = Fulfilled JNull"
  using getSessionAccessToken_never_rejects
    [of "\<lparr>window_defined = True, gotrue = (\<lambda>k. Rejected ''malformed response''), gotrue_calls = 0\<rparr>"]
  by (simp add: getSessionAccessToken_def getAccessToken_def)



section \<open>Properties of the connection icon\<close>

text \<open>
  \<open>string_includes\<close> is the substring test: the pattern is a contiguous part of the string.
\<close>

lemma string_includes_sublist: "string_includes s pat \<longleftrightarrow> sublist pat s"
  by (induction s) (simp_all add: sublist_Cons_right)

text \<open>
  A suffix that does not contain a separator character cannot reach across it.
\<close>

lemma suffix_after_separator:
  assumes "sep \<notin> set xs"
  shows "suffix xs (zs @ sep # ys) \<longleftrightarrow> suffix xs ys"
proof
  assume "suffix xs ys"
  then show "suffix xs (zs @ sep # ys)"
    by (simp add: suffix_appendI suffix_ConsI)
next
  assume "suffix xs (zs @ sep # ys)"
  then have "suffix xs ((zs @ [sep]) @ ys)" by simp
  then consider "suffix xs ys" | xs' where "xs = xs' @ ys" "suffix xs' (zs @ [sep])"
    unfolding suffix_append by blast
  then show "suffix xs ys"
  proof cases
    case 1
    then show ?thesis .
  next
    case 2
    from 2(2) have "xs' = [] \<or> sep \<in> set xs'" by auto
    with 2(1) assms show ?thesis by auto
  qed
qed

text \<open>
  The path, and when it ends in \<open>-dark-icon.svg\<close>: the base path and the directory never
  matter, since the ending holds no \<open>/\<close>.
\<close>

lemma src_ConnectionIcon:
  "src (ConnectionIcon BASE_PATH U c ctx) =
     BASE_PATH @ ''/img/libraries/'' @ toLowerCase U c @ theme_suffix U c (resolvedTheme ctx) @ ''-icon.svg''"
  by (simp add: ConnectionIcon_def)

lemma has_dark_suffix_src:
  "has_dark_suffix (src (ConnectionIcon BASE_PATH U c ctx)) \<longleftrightarrow>
     suffix ''-dark'' (toLowerCase U c @ theme_suffix U c (resolvedTheme ctx))"
proof -
  let ?name = "toLowerCase U c @ theme_suffix U c (resolvedTheme ctx)"
  have sep: "CHR ''/'' \<notin> set ''-dark-icon.svg''" by simp
  have path: "src (ConnectionIcon BASE_PATH U c ctx)
          = (BASE_PATH @ ''/img/libraries'') @ CHR ''/'' # (?name @ ''-icon.svg'')"
    by (simp add: src_ConnectionIcon)
  have "has_dark_suffix (src (ConnectionIcon BASE_PATH U c ctx))
          \<longleftrightarrow> suffix ''-dark-icon.svg'' (?name @ ''-icon.svg'')"
    unfolding has_dark_suffix_def path by (rule suffix_after_separator [OF sep])
  also have "\<dots> \<longleftrightarrow> suffix (''-dark'' @ ''-icon.svg'') (?name @ ''-icon.svg'')" by simp
  also have "\<dots> \<longleftrightarrow> suffix ''-dark'' ?name" by (rule same_suffix_suffix)
  finally show ?thesis .
qed

text \<open>
  Claim C3. For an identifier whose lowercase form is \<open>expo\<close> or \<open>nextjs\<close>, and for every
  resolved theme (absent included), the path carries the \<open>-dark\<close> suffix if and only if
  the resolved theme is present and contains the substring \<open>dark\<close>; and the path is the
  one with \<open>-dark\<close> between the lowercase identifier and \<open>-icon.svg\<close> under the same
  condition. This holds whatever the case mapping is outside ASCII.
\<close>

theorem ConnectionIcon_special_dark_iff:
  assumes "toLowerCase U c \<in> {''expo'', ''nextjs''}"
  shows "(has_dark_suffix (src (ConnectionIcon BASE_PATH U c ctx))
            \<longleftrightarrow> (\<exists>t. resolvedTheme ctx = Some t \<and> sublist ''dark'' t))
       \<and> (src (ConnectionIcon BASE_PATH U c ctx)
            = BASE_PATH @ ''/img/libraries/'' @ toLowerCase U c @ ''-dark'' @ ''-icon.svg''
            \<longleftrightarrow> (\<exists>t. resolvedTheme ctx = Some t \<and> sublist ''dark'' t))"
proof -
  let ?dark = "\<exists>t. resolvedTheme ctx = Some t \<and> sublist ''dark'' t"
  have sfx: "theme_suffix U c (resolvedTheme ctx) = (if ?dark then ''-dark'' else [])"
    using assms by (simp add: theme_suffix_def string_includes_sublist split: option.split)
  have "suffix ''-dark'' (toLowerCase U c @ theme_suffix U c (resolvedTheme ctx)) \<longleftrightarrow> ?dark"
    using assms by (auto simp add: sfx suffix_to_prefix)
  then have one: "has_dark_suffix (src (ConnectionIcon BASE_PATH U c ctx)) \<longleftrightarrow> ?dark"
    by (simp only: has_dark_suffix_src)
  have two: "src (ConnectionIcon BASE_PATH U c ctx)
            = BASE_PATH @ ''/img/libraries/'' @ toLowerCase U c @ ''-dark'' @ ''-icon.svg''
            \<longleftrightarrow> ?dark"
    by (simp add: src_ConnectionIcon sfx)
  from one two show ?thesis by (rule conjI)
qed

text \<open>
  C3 at the identifier \<open>Expo\<close> with the theme \<open>dark\<close>.
\<close>

theorem ConnectionIcon_special_dark_iff_witness:
  "toLowerCase (\<lambda>s. s) ''Expo'' \<in> {''expo'', ''nextjs''}
 \<and> has_dark_suffix (src (ConnectionIcon ''/base'' (\<lambda>s. s) ''Expo'' \<lparr>resolvedTheme = Some ''dark''\<rparr>))
 \<and> sublist ''dark'' ''dark''
 \<and> src (ConnectionIcon ''/base'' (\<lambda>s. s) ''Expo'' \<lparr>resolvedTheme = Some ''dark''\<rparr>)
     = ''/base/img/libraries/expo-dark-icon.svg''"
proof -
  have l: "toLowerCase (\<lambda>s. s) ''Expo'' = ''expo''" by code_simp
  have h: "toLowerCase (\<lambda>s. s) ''Expo'' \<in> {''expo'', ''nextjs''}" by (simp add: l)
  have d: "sublist ''dark'' ''dark''" by simp
  then have dk: "\<exists>t. resolvedTheme \<lparr>resolvedTheme = Some ''dark''\<rparr> = Some t \<and> sublist ''dark'' t"
    by simp
  note iff = ConnectionIcon_special_dark_iff [OF h, of "''/base''" "\<lparr>resolvedTheme = Some ''dark''\<rparr>"]
  have a: "has_dark_suffix (src (ConnectionIcon ''/base'' (\<lambda>s. s) ''Expo'' \<lparr>resolvedTheme = Some ''dark''\<rparr>))"
    by (rule iff [THEN conjunct1, THEN iffD2, OF dk])
  have "src (ConnectionIcon ''/base'' (\<lambda>s. s) ''Expo'' \<lparr>resolvedTheme = Some ''dark''\<rparr>)
     = ''/base'' @ ''/img/libraries/'' @ toLowerCase (\<lambda>s. s) ''Expo'' @ ''-dark'' @ ''-icon.svg''"
    by (rule iff [THEN conjunct2, THEN iffD2, OF dk])
  then have b: "src (ConnectionIcon ''/base'' (\<lambda>s. s) ''Expo'' \<lparr>resolvedTheme = Some ''dark''\<rparr>)
     = ''/base/img/libraries/expo-dark-icon.svg''"
    by (simp add: l)
  show ?thesis by (rule conjI [OF h conjI [OF a conjI [OF d b]]])
qed

text \<open>
  Claim C4 as stated fails: the identifier \<open>nextjs-dark\<close> is not special-cased, and with
  the theme \<open>light\<close> its path is \<open>/img/libraries/nextjs-dark-icon.svg\<close>, which ends in
  the \<open>-dark\<close> suffix (it is the very path of \<open>nextjs\<close> in a dark theme). The identifier
  is ASCII, so the case mapping outside ASCII is not consulted.
\<close>

theorem ConnectionIcon_plain_suffix_counterexample:
  "toLowerCase (\<lambda>s. s) ''nextjs-dark'' \<notin> {''expo'', ''nextjs''}
 \<and> has_dark_suffix (src (ConnectionIcon [] (\<lambda>s. s) ''nextjs-dark'' \<lparr>resolvedTheme = Some ''light''\<rparr>))
 \<and> src (ConnectionIcon [] (\<lambda>s. s) ''nextjs-dark'' \<lparr>resolvedTheme = Some ''light''\<rparr>)
     = ''/img/libraries/nextjs-dark-icon.svg''"
  by code_simp

text \<open>
  Claim C4, amended. For every theme and every identifier whose lowercase form is not
  special-cased, no suffix is put after the identifier: the path is the base path, the
  directory, the lowercase identifier and \<open>-icon.svg\<close>, whatever the theme. Such a path
  ends in \<open>-dark-icon.svg\<close> exactly when the lowercase identifier itself ends in
  \<open>-dark\<close>.
\<close>

theorem ConnectionIcon_plain_identifier:
  assumes "toLowerCase U c \<notin> {''expo'', ''nextjs''}"
  shows "src (ConnectionIcon BASE_PATH U c ctx)
           = BASE_PATH @ ''/img/libraries/'' @ toLowerCase U c @ ''-icon.svg''
       \<and> (has_dark_suffix (src (ConnectionIcon BASE_PATH U c ctx))
            \<longleftrightarrow> suffix ''-dark'' (toLowerCase U c))"
proof -
  have sfx: "theme_suffix U c (resolvedTheme ctx) = []"
    using assms by (simp add: theme_suffix_def)
  show ?thesis
    unfolding has_dark_suffix_src by (simp add: src_ConnectionIcon sfx)
qed

text \<open>
  Amended C4 at the identifier \<open>Postgres\<close> with the theme \<open>dark\<close>.
\<close>

theorem ConnectionIcon_plain_identifier_witness:
  "toLowerCase (\<lambda>s. s) ''Postgres'' \<notin> {''expo'', ''nextjs''}
 \<and> src (ConnectionIcon ''/base'' (\<lambda>s. s) ''Postgres'' \<lparr>resolvedTheme = Some ''dark''\<rparr>)
     = ''/base/img/libraries/postgres-icon.svg''
 \<and> \<not> has_dark_suffix (src (ConnectionIcon ''/base'' (\<lambda>s. s) ''Postgres'' \<lparr>resolvedTheme = Some ''dark''\<rparr>))"
proof -
  have l: "toLowerCase (\<lambda>s. s) ''Postgres'' = ''postgres''" by code_simp
  have h: "toLowerCase (\<lambda>s. s) ''Postgres'' \<notin> {''expo'', ''nextjs''}" by (simp add: l)
  note plain = ConnectionIcon_plain_identifier [OF h, of "''/base''" "\<lparr>resolvedTheme = Some ''dark''\<rparr>"]
  from plain [THEN conjunct1]
  have a: "src (ConnectionIcon ''/base'' (\<lambda>s. s) ''Postgres'' \<lparr>resolvedTheme = Some ''dark''\<rparr>)
     = ''/base/img/libraries/postgres-icon.svg''"
    by (simp add: l)
  have ns: "\<not> suffix ''-dark'' ''postgres''" by (simp add: suffix_to_prefix)
  from plain [THEN conjunct2]
  have "has_dark_suffix (src (ConnectionIcon ''/base'' (\<lambda>s. s) ''Postgres'' \<lparr>resolvedTheme = Some ''dark''\<rparr>))
     \<longleftrightarrow> suffix ''-dark'' ''postgres''"
    by (simp only: l)
  with ns have b: "\<not> has_dark_suffix (src (ConnectionIcon ''/base'' (\<lambda>s. s) ''Postgres'' \<lparr>resolvedTheme = Some ''dark''\<rparr>))"
    by blast
  show ?thesis by (rule conjI [OF h conjI [OF a b]])
qed

text \<open>
  Claim C5. For \<open>nextjs\<close> with a resolved theme that contains \<open>dark\<close> the path is
  \<open>{base}/img/libraries/nextjs-dark-icon.svg\<close>; for \<open>postgres\<close> with any resolved theme
  it is \<open>{base}/img/libraries/postgres-icon.svg\<close>.
\<close>

theorem ConnectionIcon_examples:
  "(resolvedTheme ctx = Some t \<and> sublist ''dark'' t
      \<longrightarrow> src (ConnectionIcon BASE_PATH U ''nextjs'' ctx)
            = BASE_PATH @ ''/img/libraries/nextjs-dark-icon.svg'')
 \<and> src (ConnectionIcon BASE_PATH U ''postgres'' ctx')
      = BASE_PATH @ ''/img/libraries/postgres-icon.svg''"
proof -
  have n: "toLowerCase U ''nextjs'' = ''nextjs''"
    by (simp add: toLowerCase_def is_ascii_def lower_char_def ascii_upper_def)
  have p: "toLowerCase U ''postgres'' = ''postgres''"
    by (simp add: toLowerCase_def is_ascii_def lower_char_def ascii_upper_def)
  show ?thesis
    by (simp add: src_ConnectionIcon theme_suffix_def n p string_includes_sublist)
qed

text \<open>
  C5 with the base path \<open>/base\<close> and the theme \<open>dark\<close>.
\<close>

theorem ConnectionIcon_examples_witness:
  "resolvedTheme \<lparr>resolvedTheme = Some ''dark''\<rparr> = Some ''dark''
 \<and> sublist ''dark'' ''dark''
 \<and> src (ConnectionIcon ''/base'' (\<lambda>s. s) ''nextjs'' \<lparr>resolvedTheme = Some ''dark''\<rparr>)
      = ''/base/img/libraries/nextjs-dark-icon.svg''
 \<and> src (ConnectionIcon ''/base'' (\<lambda>s. s) ''postgres'' \<lparr>resolvedTheme = Some ''dark''\<rparr>)
      = ''/base/img/libraries/postgres-icon.svg''"
  using ConnectionIcon_examples
    [of "\<lparr>resolvedTheme = Some ''dark''\<rparr>" "''dark''" "''/base''" "\<lambda>s. s" "\<lparr>resolvedTheme = Some ''dark''\<rparr>"]
  by simp

text \<open>
  Claim C10. When the resolved theme is absent the suffix is empty and the path is the
  light-mode one, for every identifier, special-cased or not.
\<close>

theorem ConnectionIcon_no_theme:
  assumes "resolvedTheme ctx = None"
  shows "theme_suffix U c (resolvedTheme ctx) = []
       \<and> src (ConnectionIcon BASE_PATH U c ctx)
           = BASE_PATH @ ''/img/libraries/'' @ toLowerCase U c @ ''-icon.svg''"
  using assms by (simp add: src_ConnectionIcon theme_suffix_def)

text \<open>
  C10 at the special-cased identifier \<open>Expo\<close>.
\<close>

theorem ConnectionIcon_no_theme_witness:
  "resolvedTheme \<lparr>resolvedTheme = None\<rparr> = None
 \<and> src (ConnectionIcon ''/base'' (\<lambda>s. s) ''Expo'' \<lparr>resolvedTheme = None\<rparr>)
     = ''/base/img/libraries/expo-icon.svg''"
proof -
  have l: "toLowerCase (\<lambda>s. s) ''Expo'' = ''expo''" by code_simp
  show ?thesis
    using ConnectionIcon_no_theme [of "\<lparr>resolvedTheme = None\<rparr>" "\<lambda>s. s" "''Expo''" "''/base''"]
    by (simp add: l)
qed

end
